theory Spec2Isabelle
  imports Complex_Main
begin

section \<open>JavaScript values used by the sync engine\<close>

text \<open>
  The two server files (\<^verbatim>\<open>src/server.js\<close>, the batched-HTTP backend, and
  \<^verbatim>\<open>src/unnamed/part_000\<close>, the remote-execution backend) share their utilities.
  Strings are lists of code units; the model covers the code units 0..255, on which
  \<^verbatim>\<open>trim\<close>, \<^verbatim>\<open>\s\<close> and \<^verbatim>\<open>toLowerCase\<close> are as below. A field read from a parsed CSV
  row is a string or \<^verbatim>\<open>undefined\<close>: a \<open>string option\<close>.

  Numbers are IEEE doubles in the source. The model keeps \<^verbatim>\<open>NaN\<close> and the two infinities
  apart from the finite values and computes on finite values exactly (over the reals):
  rounding error and overflow of finite arithmetic, and the sign of zero, are not modelled.
\<close>

datatype jsnum = NaN | Fin real | PosInf | NegInf

fun js_mul :: "jsnum \<Rightarrow> jsnum \<Rightarrow> jsnum" where
  "js_mul NaN _ = NaN"
| "js_mul _ NaN = NaN"
| "js_mul (Fin a) (Fin b) = Fin (a * b)"
| "js_mul (Fin a) PosInf = (if a = 0 then NaN else if 0 < a then PosInf else NegInf)"
| "js_mul (Fin a) NegInf = (if a = 0 then NaN else if 0 < a then NegInf else PosInf)"
| "js_mul PosInf (Fin b) = (if b = 0 then NaN else if 0 < b then PosInf else NegInf)"
| "js_mul NegInf (Fin b) = (if b = 0 then NaN else if 0 < b then NegInf else PosInf)"
| "js_mul PosInf PosInf = PosInf"
| "js_mul PosInf NegInf = NegInf"
| "js_mul NegInf PosInf = NegInf"
| "js_mul NegInf NegInf = PosInf"

fun js_div :: "jsnum \<Rightarrow> jsnum \<Rightarrow> jsnum" where
  "js_div NaN _ = NaN"
| "js_div _ NaN = NaN"
| "js_div (Fin a) (Fin b) =
     (if b = 0 then (if a = 0 then NaN else if 0 < a then PosInf else NegInf) else Fin (a / b))"
| "js_div (Fin a) PosInf = Fin 0"
| "js_div (Fin a) NegInf = Fin 0"
| "js_div PosInf (Fin b) = (if 0 \<le> b then PosInf else NegInf)"
| "js_div NegInf (Fin b) = (if 0 \<le> b then NegInf else PosInf)"
| "js_div PosInf PosInf = NaN"
| "js_div PosInf NegInf = NaN"
| "js_div NegInf PosInf = NaN"
| "js_div NegInf NegInf = NaN"

fun js_sub :: "jsnum \<Rightarrow> jsnum \<Rightarrow> jsnum" where
  "js_sub NaN _ = NaN"
| "js_sub _ NaN = NaN"
| "js_sub (Fin a) (Fin b) = Fin (a - b)"
| "js_sub (Fin a) PosInf = NegInf"
| "js_sub (Fin a) NegInf = PosInf"
| "js_sub PosInf (Fin b) = PosInf"
| "js_sub NegInf (Fin b) = NegInf"
| "js_sub PosInf PosInf = NaN"
| "js_sub PosInf NegInf = PosInf"
| "js_sub NegInf PosInf = NegInf"
| "js_sub NegInf NegInf = NaN"

text \<open>\<^verbatim>\<open>Math.abs\<close>, \<^verbatim>\<open>Math.round\<close> (halves go up) and \<^verbatim>\<open>Math.ceil\<close>.\<close>

fun js_abs :: "jsnum \<Rightarrow> jsnum" where
  "js_abs NaN = NaN"
| "js_abs (Fin a) = Fin \<bar>a\<bar>"
| "js_abs PosInf = PosInf"
| "js_abs NegInf = PosInf"

fun js_round :: "jsnum \<Rightarrow> jsnum" where
  "js_round (Fin a) = Fin (of_int \<lfloor>a + 1 / 2\<rfloor>)"
| "js_round x = x"

fun js_ceil :: "jsnum \<Rightarrow> jsnum" where
  "js_ceil (Fin a) = Fin (of_int \<lceil>a\<rceil>)"
| "js_ceil x = x"

text \<open>The comparisons \<^verbatim>\<open>a < b\<close> and \<^verbatim>\<open>a > b\<close>: false as soon as one side is \<^verbatim>\<open>NaN\<close>.\<close>

fun js_lt :: "jsnum \<Rightarrow> jsnum \<Rightarrow> bool" where
  "js_lt NaN _ = False"
| "js_lt _ NaN = False"
| "js_lt (Fin a) (Fin b) = (a < b)"
| "js_lt (Fin a) PosInf = True"
| "js_lt (Fin a) NegInf = False"
| "js_lt PosInf _ = False"
| "js_lt NegInf (Fin b) = True"
| "js_lt NegInf PosInf = True"
| "js_lt NegInf NegInf = False"

definition js_gt :: "jsnum \<Rightarrow> jsnum \<Rightarrow> bool" where
  "js_gt a b = js_lt b a"

text \<open>\<^verbatim>\<open>a <= b\<close>, used only to state properties (the source never evaluates it).\<close>

fun js_le :: "jsnum \<Rightarrow> jsnum \<Rightarrow> bool" where
  "js_le NaN _ = False"
| "js_le _ NaN = False"
| "js_le (Fin a) (Fin b) = (a \<le> b)"
| "js_le (Fin a) PosInf = True"
| "js_le (Fin a) NegInf = False"
| "js_le PosInf PosInf = True"
| "js_le PosInf _ = False"
| "js_le NegInf _ = True"

subsection \<open>Strings\<close>

text \<open>
  White space as \<^verbatim>\<open>String.prototype.trim\<close>, the regular expression class \<^verbatim>\<open>\s\<close> and
  \<^verbatim>\<open>parseFloat\<close> see it, among the code units 0..255: TAB, LF, VT, FF, CR, space and the
  no-break space.
\<close>

definition is_space :: "char \<Rightarrow> bool" where
  "is_space c = (let n = (of_char c :: nat) in (9 \<le> n \<and> n \<le> 13) \<or> n = 32 \<or> n = 160)"

definition js_trim :: "string \<Rightarrow> string" where
  "js_trim s = rev (dropWhile is_space (rev (dropWhile is_space s)))"

text \<open>
  \<^verbatim>\<open>toLowerCase\<close> on one code unit: A..Z and the upper-case letters of Latin-1 move up by
  32, which is setting bit 5.
\<close>

definition toLowerCase_char :: "char \<Rightarrow> char" where
  "toLowerCase_char c = (let n = (of_char c :: nat) in
     if (65 \<le> n \<and> n \<le> 90) \<or> (192 \<le> n \<and> n \<le> 222 \<and> n \<noteq> 215)
     then (case c of Char b0 b1 b2 b3 b4 b5 b6 b7 \<Rightarrow> Char b0 b1 b2 b3 b4 True b6 b7)
     else c)"

definition toLowerCase :: "string \<Rightarrow> string" where
  "toLowerCase s = map toLowerCase_char s"

definition is_digit :: "char \<Rightarrow> bool" where
  "is_digit c = (let n = (of_char c :: nat) in 48 \<le> n \<and> n \<le> 57)"

definition digit_val :: "char \<Rightarrow> nat" where
  "digit_val c = of_char c - 48"

definition digits_val :: "string \<Rightarrow> nat" where
  "digits_val ds = foldl (\<lambda>a c. 10 * a + digit_val c) 0 ds"

text \<open>The character class \<^verbatim>\<open>[a-z0-9\s-]\<close> of \<^verbatim>\<open>slugify\<close>.\<close>

definition slug_char :: "char \<Rightarrow> bool" where
  "slug_char c = (let n = (of_char c :: nat) in
     (97 \<le> n \<and> n \<le> 122) \<or> is_digit c \<or> is_space c \<or> c = CHR ''-'')"

text \<open>\<^verbatim>\<open>.replace(/\s+/g, '-')\<close>: every maximal run of white space becomes one hyphen.\<close>

function hyphenate :: "string \<Rightarrow> string" where
  "hyphenate [] = []"
| "hyphenate (c # cs) =
     (if is_space c then CHR ''-'' # hyphenate (dropWhile is_space cs) else c # hyphenate cs)"
  by pat_completeness auto
termination
  by (relation "measure length") (auto simp: length_dropWhile_le less_Suc_eq_le)

text \<open>
  \<^verbatim>\<open>function slugify(text) { if (!text) return '';
     return text.toString().toLowerCase().trim()
       .replace(/[^a-z0-9\s-]/g, '').replace(/\s+/g, '-'); }\<close>
\<close>

definition slugify :: "string \<Rightarrow> string" where
  "slugify text =
     (if text = [] then []
      else hyphenate (filter slug_char (js_trim (toLowerCase text))))"

text \<open>
  \<^verbatim>\<open>a || b\<close> on values that are strings or \<^verbatim>\<open>undefined\<close> (the empty string and
  \<^verbatim>\<open>undefined\<close> are falsy), and a value inside a template literal (\<^verbatim>\<open>undefined\<close> prints as
  the word).
\<close>

definition truthy :: "string option \<Rightarrow> bool" where
  "truthy x = (case x of None \<Rightarrow> False | Some s \<Rightarrow> s \<noteq> [])"

definition js_or :: "string option \<Rightarrow> string option \<Rightarrow> string option" where
  "js_or a b = (if truthy a then a else b)"

definition tmpl :: "string option \<Rightarrow> string" where
  "tmpl x = (case x of None \<Rightarrow> ''undefined'' | Some s \<Rightarrow> s)"

subsection \<open>parseFloat\<close>

text \<open>
  \<^verbatim>\<open>parseFloat\<close> skips leading white space and reads the longest prefix that is a
  decimal literal: an optional sign, then \<^verbatim>\<open>Infinity\<close>, or digits with an optional
  fraction and an optional exponent (an exponent counts only when it has a digit).
  No such prefix gives \<^verbatim>\<open>NaN\<close>. \<^verbatim>\<open>parseFloat(undefined)\<close> reads the word
  \<^verbatim>\<open>undefined\<close> and is \<^verbatim>\<open>NaN\<close>.
\<close>

definition exponent_part :: "string \<Rightarrow> int" where
  "exponent_part r =
     (case r of
        [] \<Rightarrow> 0
      | c # r' \<Rightarrow>
          if c = CHR ''e'' \<or> c = CHR ''E'' then
            (let (eneg, ds_src) =
                   (case r' of
                      [] \<Rightarrow> (False, [])
                    | d # r'' \<Rightarrow> if d = CHR ''-'' then (True, r'')
                                 else if d = CHR ''+'' then (False, r'') else (False, r'));
                 ds = takeWhile is_digit ds_src
             in if ds = [] then 0
                else if eneg then - int (digits_val ds) else int (digits_val ds))
          else 0)"

definition parseFloat :: "string \<Rightarrow> jsnum" where
  "parseFloat s =
     (let t = dropWhile is_space s;
          (neg, u) =
            (case t of
               [] \<Rightarrow> (False, [])
             | c # r \<Rightarrow> if c = CHR ''-'' then (True, r)
                        else if c = CHR ''+'' then (False, r) else (False, t))
      in if take 8 u = ''Infinity'' then (if neg then NegInf else PosInf)
         else
           (let ip = takeWhile is_digit u;
                r1 = dropWhile is_digit u;
                (fp, r2) =
                  (case r1 of
                     [] \<Rightarrow> ([], [])
                   | c # r \<Rightarrow> if c = CHR ''.''
                              then (takeWhile is_digit r, dropWhile is_digit r)
                              else ([], r1))
            in if ip = [] \<and> fp = [] then NaN
               else
                 (let m = real (digits_val (ip @ fp)) / 10 ^ length fp;
                      e = exponent_part r2;
                      v = (if 0 \<le> e then m * 10 ^ nat e else m / 10 ^ nat (- e))
                  in Fin (if neg then - v else v))))"

definition parseFloat_field :: "string option \<Rightarrow> jsnum" where
  "parseFloat_field x = parseFloat (tmpl x)"

section \<open>Feed rows, groups and the catalog normalizer\<close>

text \<open>
  A row of \<^verbatim>\<open>ProductsAndPrices.csv\<close> and a row of \<^verbatim>\<open>Groups.csv\<close>, parsed with
  \<^verbatim>\<open>columns: true\<close>: the columns the reconciliation reads. The title, the description and
  the image of a product are built from further columns; no decision and no counter
  depends on them, and they are left out of the operations below.
\<close>

record row =
  productId :: "string option"
  subTypeName :: "string option"
  extNumber :: "string option"
  marketPrice :: "string option"

record group =
  groupId :: "string option"
  g_name :: "string option"
  g_abbreviation :: "string option"

text \<open>
  \<^verbatim>\<open>groups.forEach(g => { groupsMap[g.groupId] = g.name;
     abbrevMap[g.groupId] = g.abbreviation || g.groupId; })\<close>:
  plain objects, whose keys are the printed group ids; a later group with the same id
  overwrites an earlier one. Reading a key gives the stored value, or \<^verbatim>\<open>undefined\<close>.
\<close>

definition groupsMap :: "group list \<Rightarrow> (string \<rightharpoonup> string option)" where
  "groupsMap groups = foldl (\<lambda>m g. m(tmpl (groupId g) \<mapsto> g_name g)) Map.empty groups"

definition abbrevMap :: "group list \<Rightarrow> (string \<rightharpoonup> string option)" where
  "abbrevMap groups =
     foldl (\<lambda>m g. m(tmpl (groupId g) \<mapsto> js_or (g_abbreviation g) (groupId g))) Map.empty groups"

definition obj_get :: "(string \<rightharpoonup> string option) \<Rightarrow> string option \<Rightarrow> string option" where
  "obj_get m k = (case m (tmpl k) of None \<Rightarrow> None | Some v \<Rightarrow> v)"

text \<open>\<^verbatim>\<open>const abbrev = abbrevMap[groupId] || groupId;\<close>\<close>

definition abbrev_of :: "group list \<Rightarrow> string option \<Rightarrow> string option" where
  "abbrev_of groups gid = js_or (obj_get (abbrevMap groups) gid) gid"

text \<open>
  \<^verbatim>\<open>const subType = slugify(row.subTypeName || 'normal') || 'base';
     const sku = `${productId}-${subType}-${abbrev}`;\<close>
\<close>

definition or_default :: "string option \<Rightarrow> string \<Rightarrow> string" where
  "or_default x d = (case x of None \<Rightarrow> d | Some s \<Rightarrow> if s = [] then d else s)"

definition subType :: "string option \<Rightarrow> string" where
  "subType label = (let s = slugify (or_default label ''normal'') in if s = [] then ''base'' else s)"

definition sku :: "string option \<Rightarrow> string option \<Rightarrow> string option \<Rightarrow> string" where
  "sku pid label abbrev = tmpl pid @ ''-'' @ subType label @ ''-'' @ tmpl abbrev"

text \<open>
  The filter to singles, the same in both files:
  \<^verbatim>\<open>products.filter(p => { const extNum = (p.extNumber || '').trim();
       const hasSlash = extNum.includes('/');
       const hasPrice = p.marketPrice && parseFloat(p.marketPrice) > 0;
       return hasSlash && hasPrice; })\<close>
\<close>

definition sellable :: "row \<Rightarrow> bool" where
  "sellable p =
     (let extNum = js_trim (or_default (extNumber p) []);
          hasSlash = (CHR ''/'' \<in> set extNum);
          hasPrice = (truthy (marketPrice p) \<and> js_gt (parseFloat_field (marketPrice p)) (Fin 0))
      in hasSlash \<and> hasPrice)"

definition MIN_PRICE_COP :: jsnum where
  "MIN_PRICE_COP = Fin 200"

text \<open>
  The batched-HTTP file: \<^verbatim>\<open>let priceCOP = Math.round(parseFloat(row.marketPrice) * trm);
     if (priceCOP < config.MIN_PRICE_COP) priceCOP = config.MIN_PRICE_COP;\<close>
\<close>

definition rounded_rest :: "row \<Rightarrow> jsnum \<Rightarrow> jsnum" where
  "rounded_rest r trm = js_round (js_mul (parseFloat_field (marketPrice r)) trm)"

definition priceCOP_rest :: "row \<Rightarrow> jsnum \<Rightarrow> jsnum" where
  "priceCOP_rest r trm =
     (let priceCOP = rounded_rest r trm
      in if js_lt priceCOP MIN_PRICE_COP then MIN_PRICE_COP else priceCOP)"

text \<open>
  The remote-execution file:
  \<^verbatim>\<open>let priceCOP = Math.ceil(parseFloat(row.marketPrice) * trm / 100) * 100;
     if (priceCOP < config.MIN_PRICE_COP) priceCOP = config.MIN_PRICE_COP;\<close>
\<close>

definition rounded_ssh :: "row \<Rightarrow> jsnum \<Rightarrow> jsnum" where
  "rounded_ssh r trm =
     js_mul (js_ceil (js_div (js_mul (parseFloat_field (marketPrice r)) trm) (Fin 100))) (Fin 100)"

definition priceCOP_ssh :: "row \<Rightarrow> jsnum \<Rightarrow> jsnum" where
  "priceCOP_ssh r trm =
     (let priceCOP = rounded_ssh r trm
      in if js_lt priceCOP MIN_PRICE_COP then MIN_PRICE_COP else priceCOP)"

section \<open>The reconciliation differ\<close>

subsection \<open>Remote-execution backend\<close>

text \<open>
  The snapshot maps a SKU to \<^verbatim>\<open>{ id, price }\<close>; an id is the result of \<^verbatim>\<open>parseInt\<close>
  (\<open>None\<close> is \<^verbatim>\<open>NaN\<close>). The row loop of \<^verbatim>\<open>runSSHSync\<close> appends to \<^verbatim>\<open>priceUpdates\<close> and
  \<^verbatim>\<open>newProducts\<close> and counts \<^verbatim>\<open>totalSkipped\<close>:
  \<^verbatim>\<open>const existing = existingProducts.get(sku);
     if (existing) {
       if (Math.abs(existing.price - priceCOP) > 1) priceUpdates.push({ id: existing.id, price: priceCOP });
       else totalSkipped++;
     } else if (!pricesOnly) newProducts.push({ sku, title, price: priceCOP, ... });
     else totalSkipped++;\<close>
\<close>

record ssh_existing =
  ex_id :: "int option"
  ex_price :: jsnum

record price_update =
  pu_id :: "int option"
  pu_price :: jsnum

record new_product =
  np_sku :: string
  np_price :: jsnum

type_synonym ssh_snapshot = "string \<rightharpoonup> ssh_existing"

type_synonym ssh_acc = "price_update list \<times> new_product list \<times> nat"

fun ssh_row :: "bool \<Rightarrow> jsnum \<Rightarrow> string option \<Rightarrow> ssh_snapshot \<Rightarrow> ssh_acc \<Rightarrow> row \<Rightarrow> ssh_acc" where
  "ssh_row pricesOnly trm abbrev existingProducts (priceUpdates, newProducts, totalSkipped) r =
     (let k = sku (productId r) (subTypeName r) abbrev;
          priceCOP = priceCOP_ssh r trm
      in case existingProducts k of
           Some existing \<Rightarrow>
             if js_gt (js_abs (js_sub (ex_price existing) priceCOP)) (Fin 1)
             then (priceUpdates @ [\<lparr>pu_id = ex_id existing, pu_price = priceCOP\<rparr>],
                   newProducts, totalSkipped)
             else (priceUpdates, newProducts, totalSkipped + 1)
         | None \<Rightarrow>
             if \<not> pricesOnly
             then (priceUpdates, newProducts @ [\<lparr>np_sku = k, np_price = priceCOP\<rparr>], totalSkipped)
             else (priceUpdates, newProducts, totalSkipped + 1))"

definition ssh_rows ::
  "bool \<Rightarrow> jsnum \<Rightarrow> string option \<Rightarrow> ssh_snapshot \<Rightarrow> nat \<Rightarrow> row list \<Rightarrow> ssh_acc" where
  "ssh_rows pricesOnly trm abbrev existingProducts totalSkipped singles =
     foldl (ssh_row pricesOnly trm abbrev existingProducts) ([], [], totalSkipped) singles"

subsection \<open>Batched-HTTP backend\<close>

text \<open>
  The snapshot is built from the store's product listing and keeps \<^verbatim>\<open>{ id, status }\<close> only:
  \<^verbatim>\<open>products.forEach(p => { if (p.sku) existingProducts.set(p.sku, { id: p.id, status: p.status }); })\<close>.
  The listing's price is never stored.
\<close>

record wc_product =
  wc_sku :: "string option"
  wc_id :: int
  wc_status :: string
  wc_regular_price :: string

record rest_existing =
  re_id :: int
  re_status :: string

type_synonym rest_snapshot = "string \<rightharpoonup> rest_existing"

definition register_page :: "wc_product list \<Rightarrow> rest_snapshot \<Rightarrow> rest_snapshot" where
  "register_page products existingProducts =
     foldl (\<lambda>m p. if truthy (wc_sku p)
                   then m(tmpl (wc_sku p) \<mapsto> \<lparr>re_id = wc_id p, re_status = wc_status p\<rparr>)
                   else m)
       existingProducts products"

text \<open>
  The row loop of the batched-HTTP \<^verbatim>\<open>runSync\<close>:
  \<^verbatim>\<open>const existing = existingProducts.get(sku);
     if (existing) {
       const updateData = pricesOnly ? { id: existing.id, regular_price: String(priceCOP) }
         : { id: existing.id, name: title, regular_price: String(priceCOP), categories: ..., tags: ...,
             status: existing.status === 'trash' ? 'publish' : undefined };
       toUpdate.push(updateData);
     } else if (!pricesOnly) toCreate.push({ name: title, type: 'simple', sku, regular_price: String(priceCOP), ... });
     else syncState.skipped++;\<close>
  The price is kept as the number that \<^verbatim>\<open>String\<close> prints; \<open>ud_refresh\<close> says whether
  the name, categories and tags are part of the update.
\<close>

record update_data =
  ud_id :: int
  ud_regular_price :: jsnum
  ud_refresh :: bool
  ud_status :: "string option"

record create_data =
  cd_sku :: string
  cd_regular_price :: jsnum

type_synonym rest_acc = "create_data list \<times> update_data list \<times> nat"

fun rest_row :: "bool \<Rightarrow> jsnum \<Rightarrow> string option \<Rightarrow> rest_snapshot \<Rightarrow> rest_acc \<Rightarrow> row \<Rightarrow> rest_acc" where
  "rest_row pricesOnly trm abbrev existingProducts (toCreate, toUpdate, skipped) r =
     (let k = sku (productId r) (subTypeName r) abbrev;
          priceCOP = priceCOP_rest r trm
      in case existingProducts k of
           Some existing \<Rightarrow>
             (let updateData =
                    (if pricesOnly
                     then \<lparr>ud_id = re_id existing, ud_regular_price = priceCOP,
                           ud_refresh = False, ud_status = None\<rparr>
                     else \<lparr>ud_id = re_id existing, ud_regular_price = priceCOP,
                           ud_refresh = True,
                           ud_status = (if re_status existing = ''trash''
                                        then Some ''publish'' else None)\<rparr>)
              in (toCreate, toUpdate @ [updateData], skipped))
         | None \<Rightarrow>
             if \<not> pricesOnly
             then (toCreate @ [\<lparr>cd_sku = k, cd_regular_price = priceCOP\<rparr>], toUpdate, skipped)
             else (toCreate, toUpdate, skipped + 1))"

definition rest_rows ::
  "bool \<Rightarrow> jsnum \<Rightarrow> string option \<Rightarrow> rest_snapshot \<Rightarrow> nat \<Rightarrow> row list \<Rightarrow> rest_acc" where
  "rest_rows pricesOnly trm abbrev existingProducts skipped singles =
     foldl (rest_row pricesOnly trm abbrev existingProducts) ([], [], skipped) singles"

section \<open>Run state, logs and progress events\<close>

text \<open>
  \<^verbatim>\<open>syncState\<close> with the fields of both files (the batched-HTTP file has no \<^verbatim>\<open>errors\<close> and
  no \<^verbatim>\<open>method\<close> and never touches them here). \<open>total_s\<close> and \<open>method_s\<close> are the fields
  \<^verbatim>\<open>total\<close> and \<^verbatim>\<open>method\<close>. A log
  message is kept as the template it was printed from; a time stamp is a number.
\<close>

datatype phase = Idle | Starting | Downloading | Connecting | Fetching | Syncing | Complete | Error

datatype severity = Info | Warn | Success | Err

datatype log_msg =
    SyncAlreadyRunning
  | StartingSync bool
  | StartingSSHSync
  | DownloadingCardData
  | FoundSets nat
  | ExchangeRate jsnum
  | ConnectingWooCommerce
  | FetchingExisting
  | FetchedSoFar
  | ErrorFetchingPage nat
  | FoundExisting
  | StartingProductSync
  | BatchCreateError
  | BatchUpdateError
  | PriceUpdateError
  | SetSynced "string option" nat nat
  | SetsProgress nat nat nat nat nat
  | SyncCompleteMsg nat nat nat
  | SyncFailed
  | CouldNotFetchTRM

record log_entry =
  timestamp :: nat
  msg :: log_msg
  severity :: severity

record syncState =
  running :: bool
  phase :: phase
  progress :: nat
  total_s :: nat
  created :: nat
  updated :: nat
  skipped :: nat
  errors :: nat
  currentSet :: "string option"
  logs :: "log_entry list"
  startTime :: "nat option"
  endTime :: "nat option"
  mode :: "string option"
  method_s :: "string option"

text \<open>The object that \<^verbatim>\<open>resetState\<close> installs (and the one the process starts with).\<close>

definition initial_state :: syncState where
  "initial_state =
     \<lparr>running = False, phase = Idle, progress = 0, total_s = 0, created = 0, updated = 0,
      skipped = 0, errors = 0, currentSet = Some [], logs = [], startTime = None,
      endTime = None, mode = None, method_s = None\<rparr>"

text \<open>
  The world of a run: the current \<^verbatim>\<open>syncState\<close> and, in \<open>trace\<close>, the state as it stood
  at every broadcast (the payload of each \<^verbatim>\<open>progress\<close> event, and the state right after
  each log entry). A plain assignment to a field (\<open>poke\<close>) is not broadcast. In the
  remote-execution file every \<^verbatim>\<open>await\<close> inside the group loop follows a broadcast with no
  assignment in between, so what \<^verbatim>\<open>GET /api/status\<close> can read there is a state of the trace.
\<close>

record world =
  st :: syncState
  trace :: "syncState list"

text \<open>
  What a run receives from outside. \<open>clock\<close> gives the time read after so many
  broadcasts. \<open>None\<close> stands for a request that throws (a download or its parse, a
  query, a remote command); the remote store's answers are indexed by the group and
  by the position of the batch or of the product inside the group.
\<close>

datatype json = JNull | JBool bool | JNum real | JStr string | JArr "json list"
  | JObj "(string \<times> json) list"

datatype http_json = FetchFailed | NotJson | Body json

record env =
  clock :: "nat \<Rightarrow> nat"
  groups_csv :: "group list option"
  trm_response :: http_json
  products_csv :: "nat \<Rightarrow> row list option"
  ssh_pass :: bool
  existing_raw :: "string option"
  update_ok :: "nat \<Rightarrow> nat \<Rightarrow> bool"
  create_result :: "nat \<Rightarrow> nat \<Rightarrow> string option"
  wc_configured :: bool
  wc_page :: "nat \<Rightarrow> wc_product list option"
  batch_create_ok :: "nat \<Rightarrow> nat \<Rightarrow> bool"
  batch_update_ok :: "nat \<Rightarrow> nat \<Rightarrow> bool"

definition poke :: "(syncState \<Rightarrow> syncState) \<Rightarrow> world \<Rightarrow> world" where
  "poke f w = w\<lparr>st := f (st w)\<rparr>"

text \<open>\<^verbatim>\<open>function updateProgress(updates) { Object.assign(syncState, updates);
     broadcast({ type: 'progress', data: syncState }); }\<close>\<close>

definition updateProgress :: "(syncState \<Rightarrow> syncState) \<Rightarrow> world \<Rightarrow> world" where
  "updateProgress updates w = \<lparr>st = updates (st w), trace = trace w @ [updates (st w)]\<rparr>"

text \<open>
  \<^verbatim>\<open>function log(msg, type = 'info') { const entry = { timestamp, msg, type };
     syncState.logs.push(entry); if (syncState.logs.length > CAP) syncState.logs.shift();
     broadcast({ type: 'log', data: entry }); }\<close>
  with \<^verbatim>\<open>CAP\<close> 500 in the batched-HTTP file and 1000 in the remote-execution file.
\<close>

definition log_s :: "env \<Rightarrow> nat \<Rightarrow> log_msg \<Rightarrow> severity \<Rightarrow> world \<Rightarrow> world" where
  "log_s e cap m ty w =
     (let entry = \<lparr>timestamp = clock e (length (trace w)), msg = m, severity = ty\<rparr>;
          pushed = logs (st w) @ [entry];
          kept = (if length pushed > cap then tl pushed else pushed);
          s = (st w)\<lparr>logs := kept\<rparr>
      in \<lparr>st = s, trace = trace w @ [s]\<rparr>)"

definition resetState :: "world \<Rightarrow> world" where
  "resetState w = poke (\<lambda>_. initial_state) w"

section \<open>The currency rate provider\<close>

text \<open>
  \<^verbatim>\<open>async function getTRM() {
       try { const res = await fetch(URL); const data = await res.json();
             return parseFloat(data[0].valor); }
       catch (e) { log('Could not fetch TRM, using default 4200', 'warn'); return 4200; } }\<close>
  Reading a property of \<^verbatim>\<open>null\<close> or \<^verbatim>\<open>undefined\<close> throws; reading a property that a
  value does not have gives \<^verbatim>\<open>undefined\<close>. \<open>None\<close> below is the thrown \<^verbatim>\<open>TypeError\<close>.
\<close>

datatype jsval = Undefined | Val json

definition lookup_last :: "(string \<times> json) list \<Rightarrow> string \<Rightarrow> jsval" where
  "lookup_last kvs k = (case map_of (rev kvs) k of None \<Rightarrow> Undefined | Some v \<Rightarrow> Val v)"

fun js_index0 :: "json \<Rightarrow> jsval option" where
  "js_index0 JNull = None"
| "js_index0 (JArr xs) = Some (case xs of [] \<Rightarrow> Undefined | x # _ \<Rightarrow> Val x)"
| "js_index0 (JObj kvs) = Some (lookup_last kvs ''0'')"
| "js_index0 (JStr s) = Some (case s of [] \<Rightarrow> Undefined | c # _ \<Rightarrow> Val (JStr [c]))"
| "js_index0 (JNum _) = Some Undefined"
| "js_index0 (JBool _) = Some Undefined"

fun js_valor :: "jsval \<Rightarrow> jsval option" where
  "js_valor Undefined = None"
| "js_valor (Val JNull) = None"
| "js_valor (Val (JObj kvs)) = Some (lookup_last kvs ''valor'')"
| "js_valor (Val _) = Some Undefined"

text \<open>
  \<^verbatim>\<open>parseFloat\<close> of a value prints it first: a number prints as itself, an array prints
  its elements joined by commas (so only the first element can be read), and nothing
  else but a string can start with a number.
\<close>

fun parseFloat_json :: "json \<Rightarrow> jsnum" where
  "parseFloat_json (JStr s) = parseFloat s"
| "parseFloat_json (JNum x) = Fin x"
| "parseFloat_json (JArr (x # _)) = parseFloat_json x"
| "parseFloat_json _ = NaN"

definition parseFloat_val :: "jsval \<Rightarrow> jsnum" where
  "parseFloat_val v = (case v of Undefined \<Rightarrow> NaN | Val j \<Rightarrow> parseFloat_json j)"

definition getTRM :: "env \<Rightarrow> nat \<Rightarrow> world \<Rightarrow> jsnum \<times> world" where
  "getTRM e cap w =
     (let fallback = (Fin 4200, log_s e cap CouldNotFetchTRM Warn w)
      in case trm_response e of
           FetchFailed \<Rightarrow> fallback
         | NotJson \<Rightarrow> fallback
         | Body data \<Rightarrow>
             (case js_index0 data of
                None \<Rightarrow> fallback
              | Some first \<Rightarrow>
                  (case js_valor first of
                     None \<Rightarrow> fallback
                   | Some valor \<Rightarrow> (parseFloat_val valor, w))))"

section \<open>The remote-execution backend (\<^verbatim>\<open>src/unnamed/part_000\<close>)\<close>

subsection \<open>Inventory snapshot\<close>

text \<open>\<^verbatim>\<open>parseInt\<close> without a radix: white space, a sign, \<^verbatim>\<open>0x\<close> for base 16, then digits.\<close>

definition hex_val :: "char \<Rightarrow> nat option" where
  "hex_val c = (let n = (of_char c :: nat) in
     if 48 \<le> n \<and> n \<le> 57 then Some (n - 48)
     else if 97 \<le> n \<and> n \<le> 102 then Some (n - 87)
     else if 65 \<le> n \<and> n \<le> 70 then Some (n - 55)
     else None)"

definition parseInt :: "string \<Rightarrow> int option" where
  "parseInt s =
     (let t = dropWhile is_space s;
          (neg, u) =
            (case t of
               [] \<Rightarrow> (False, [])
             | c # r \<Rightarrow> if c = CHR ''-'' then (True, r)
                        else if c = CHR ''+'' then (False, r) else (False, t));
          hex = (take 2 u = ''0x'' \<or> take 2 u = ''0X'');
          v = (if hex then drop 2 u else u);
          ds = (if hex then takeWhile (\<lambda>c. hex_val c \<noteq> None) v else takeWhile is_digit v);
          n = (if hex then foldl (\<lambda>a c. 16 * a + (case hex_val c of Some d \<Rightarrow> d | None \<Rightarrow> 0)) 0 ds
               else digits_val ds)
      in if ds = [] then None else Some (if neg then - int n else int n))"

text \<open>\<^verbatim>\<open>String.prototype.split\<close> on a one-character separator, and reading a field by
  position (\<^verbatim>\<open>undefined\<close> past the end).\<close>

fun split_on :: "char \<Rightarrow> string \<Rightarrow> string list" where
  "split_on sep [] = [[]]"
| "split_on sep (c # cs) =
     (if c = sep then [] # split_on sep cs
      else (case split_on sep cs of [] \<Rightarrow> [[c]] | f # fs \<Rightarrow> (c # f) # fs))"

definition field_at :: "string list \<Rightarrow> nat \<Rightarrow> string option" where
  "field_at fs k = (if k < length fs then Some (fs ! k) else None)"

text \<open>\<^verbatim>\<open>parseFloat(price) || 0\<close>: \<^verbatim>\<open>NaN\<close> and zero are falsy.\<close>

definition num_or_zero :: "jsnum \<Rightarrow> jsnum" where
  "num_or_zero x = (case x of NaN \<Rightarrow> Fin 0 | _ \<Rightarrow> x)"

text \<open>
  \<^verbatim>\<open>existingRaw.trim().split('\n').forEach(line => { if (!line) return;
       const [id, sku, price] = line.split('\t');
       if (sku) existingProducts.set(sku, { id: parseInt(id), price: parseFloat(price) || 0 }); })\<close>
\<close>

definition parse_existing :: "string \<Rightarrow> ssh_snapshot" where
  "parse_existing existingRaw =
     foldl (\<lambda>m line.
              if line = [] then m
              else (let fs = split_on (CHR 0x09) line;
                        k = field_at fs 1
                    in if truthy k
                       then m(tmpl k \<mapsto> \<lparr>ex_id = parseInt (tmpl (field_at fs 0)),
                                          ex_price = num_or_zero (parseFloat_field (field_at fs 2))\<rparr>)
                       else m))
       Map.empty (split_on (CHR 0x0A) (js_trim existingRaw))"

subsection \<open>The group loop\<close>

text \<open>
  The locals of \<^verbatim>\<open>runSSHSync\<close> that the loop changes, the world, and in \<open>issued\<close> the
  commands sent to the remote host so far, each with what came back: a pair of
  \<^verbatim>\<open>UPDATE\<close> statements for one batch (\<open>True\<close>: neither threw), or one
  \<^verbatim>\<open>wp wc product create\<close> (its output, \<open>None\<close> when it threw).
\<close>

datatype remote_cmd = UpdatePrices "price_update list" bool | CreateProduct new_product "string option"

record ssh_run =
  totalCreated :: nat
  totalUpdated :: nat
  totalSkipped :: nat
  totalErrors :: nat
  existingProducts :: ssh_snapshot
  world :: world
  issued :: "remote_cmd list"

text \<open>
  \<^verbatim>\<open>try { for (let j = 0; j < priceUpdates.length; j += 500) {
           const batch = priceUpdates.slice(j, j + 500);
           await mysqlQuery(...); await mysqlQuery(...);
           totalUpdated += batch.length; updateProgress({ updated: totalUpdated }); } }
     catch (e) { log('Price update error', 'warn'); totalErrors++; }\<close>
  A statement that throws ends the loop: the batches after it are not sent.
\<close>

function ssh_update_batches ::
  "env \<Rightarrow> nat \<Rightarrow> price_update list \<Rightarrow> nat \<Rightarrow> ssh_run \<Rightarrow> ssh_run" where
  "ssh_update_batches e i priceUpdates j s =
     (if j < length priceUpdates then
        (let batch = take 500 (drop j priceUpdates)
         in if update_ok e i j then
              (let n = totalUpdated s + length batch
               in ssh_update_batches e i priceUpdates (j + 500)
                    (s\<lparr>totalUpdated := n,
                       world := updateProgress (\<lambda>x. x\<lparr>updated := n\<rparr>) (world s),
                       issued := issued s @ [UpdatePrices batch True]\<rparr>))
            else s\<lparr>totalErrors := totalErrors s + 1,
                   world := log_s e 1000 PriceUpdateError Warn (world s),
                   issued := issued s @ [UpdatePrices batch False]\<rparr>)
      else s)"
  by pat_completeness auto
termination
  by (relation "measure (\<lambda>(e, i, priceUpdates, j, s). length priceUpdates - j)") auto

text \<open>
  \<^verbatim>\<open>for (const p of newProducts) {
       try { const result = await sshExec(wpCmd);
             if (result.trim() !== 'SKIP') { totalCreated++;
               existingProducts.set(p.sku, { id: parseInt(result), price: p.price });
               updateProgress({ created: totalCreated }); } }
       catch (e) { totalErrors++; } }\<close>
\<close>

fun ssh_creates :: "env \<Rightarrow> nat \<Rightarrow> nat \<Rightarrow> new_product list \<Rightarrow> ssh_run \<Rightarrow> ssh_run" where
  "ssh_creates e i k [] s = s"
| "ssh_creates e i k (p # ps) s =
     ssh_creates e i (k + 1) ps
       (case create_result e i k of
          None \<Rightarrow> s\<lparr>totalErrors := totalErrors s + 1,
                    issued := issued s @ [CreateProduct p None]\<rparr>
        | Some result \<Rightarrow>
            if js_trim result \<noteq> ''SKIP''
            then s\<lparr>totalCreated := totalCreated s + 1,
                   existingProducts :=
                     (existingProducts s)(np_sku p \<mapsto> \<lparr>ex_id = parseInt result, ex_price = np_price p\<rparr>),
                   world := updateProgress (\<lambda>x. x\<lparr>created := totalCreated s + 1\<rparr>) (world s),
                   issued := issued s @ [CreateProduct p (Some result)]\<rparr>
            else s\<lparr>issued := issued s @ [CreateProduct p (Some result)]\<rparr>)"

text \<open>
  One turn of \<^verbatim>\<open>for (let i = 0; i < groups.length; i++)\<close>; \<open>fetched\<close> is what the
  download and parse of the group's CSV gave (\<open>None\<close>: it threw, and the \<^verbatim>\<open>catch\<close> runs
  \<^verbatim>\<open>totalErrors++; continue;\<close>).
\<close>

definition ssh_group ::
  "env \<Rightarrow> bool \<Rightarrow> jsnum \<Rightarrow> group list \<Rightarrow> nat \<Rightarrow> row list option \<Rightarrow> ssh_run \<Rightarrow> ssh_run" where
  "ssh_group e pricesOnly trm groups i fetched s =
     (let gid = groupId (groups ! i);
          setName = obj_get (groupsMap groups) gid;
          abbrev = abbrev_of groups gid;
          s1 = s\<lparr>world := updateProgress (\<lambda>x. x\<lparr>progress := i + 1, currentSet := setName\<rparr>) (world s)\<rparr>
      in case fetched of
           None \<Rightarrow> s1\<lparr>totalErrors := totalErrors s1 + 1\<rparr>
         | Some products \<Rightarrow>
             (let singles = filter sellable products
              in if length singles = 0 then s1
                 else
                   (let (priceUpdates, newProducts, sk) =
                          ssh_rows pricesOnly trm abbrev (existingProducts s1) (totalSkipped s1) singles;
                        s2 = s1\<lparr>totalSkipped := sk\<rparr>;
                        s3 = (if length priceUpdates > 0
                              then ssh_update_batches e i priceUpdates 0 s2 else s2);
                        s4 = (if length newProducts > 0 \<and> \<not> pricesOnly
                              then ssh_creates e i 0 newProducts s3 else s3)
                    in if (i + 1) mod 10 = 0
                       then s4\<lparr>world :=
                                 log_s e 1000
                                   (SetsProgress (i + 1) (length groups) (totalUpdated s4)
                                      (totalCreated s4) (totalSkipped s4))
                                   Info (world s4)\<rparr>
                       else s4)))"

definition ssh_groups :: "env \<Rightarrow> bool \<Rightarrow> jsnum \<Rightarrow> group list \<Rightarrow> ssh_run \<Rightarrow> ssh_run" where
  "ssh_groups e pricesOnly trm groups s =
     foldl (\<lambda>s i. ssh_group e pricesOnly trm groups i (products_csv e i) s) s [0..<length groups]"

text \<open>
  \<^verbatim>\<open>runSSHSync\<close> up to the end of the group loop. \<open>Inl\<close> is an exception leaving the
  function (the download of the group list, or the snapshot query), with the world as
  it stood.
\<close>

definition runSSHSync_loop :: "env \<Rightarrow> string \<Rightarrow> world \<Rightarrow> world + ssh_run" where
  "runSSHSync_loop e mode_arg w0 =
     (let pricesOnly = (mode_arg = ''prices'');
          w1 = log_s e 1000 StartingSSHSync Info w0;
          w2 = updateProgress (\<lambda>x. x\<lparr>method_s := Some ''ssh''\<rparr>) w1;
          w3 = updateProgress (\<lambda>x. x\<lparr>phase := Downloading\<rparr>) w2;
          w4 = log_s e 1000 DownloadingCardData Info w3
      in case groups_csv e of
           None \<Rightarrow> Inl w4
         | Some groups \<Rightarrow>
             (let w5 = log_s e 1000 (FoundSets (length groups)) Success w4;
                  w6 = updateProgress (\<lambda>x. x\<lparr>total_s := length groups\<rparr>) w5;
                  (trm, w7) = getTRM e 1000 w6;
                  w8 = log_s e 1000 (ExchangeRate trm) Info w7;
                  w9 = updateProgress (\<lambda>x. x\<lparr>phase := Fetching\<rparr>) w8;
                  w10 = log_s e 1000 FetchingExisting Info w9
              in case existing_raw e of
                   None \<Rightarrow> Inl w10
                 | Some existingRaw \<Rightarrow>
                     (let w11 = log_s e 1000 FoundExisting Success w10;
                          w12 = updateProgress (\<lambda>x. x\<lparr>phase := Syncing, progress := 0\<rparr>) w11;
                          w13 = log_s e 1000 StartingProductSync Info w12
                      in Inr (ssh_groups e pricesOnly trm groups
                                \<lparr>totalCreated = 0, totalUpdated = 0, totalSkipped = 0,
                                 totalErrors = 0, existingProducts = parse_existing existingRaw,
                                 world = w13, issued = []\<rparr>))))"

text \<open>
  The end of \<^verbatim>\<open>runSSHSync\<close>:
  \<^verbatim>\<open>syncState.created = totalCreated; syncState.updated = totalUpdated;
     syncState.skipped = totalSkipped; syncState.errors = totalErrors;
     return { created: totalCreated, ... };\<close>
\<close>

definition runSSHSync :: "env \<Rightarrow> string \<Rightarrow> world \<Rightarrow> world + ssh_run" where
  "runSSHSync e mode_arg w0 =
     (case runSSHSync_loop e mode_arg w0 of
        Inl w \<Rightarrow> Inl w
      | Inr s \<Rightarrow>
          Inr (s\<lparr>world := poke (\<lambda>x. x\<lparr>created := totalCreated s, updated := totalUpdated s,
                                       skipped := totalSkipped s, errors := totalErrors s\<rparr>)
                             (world s)\<rparr>))"

text \<open>
  \<^verbatim>\<open>async function runSync(mode = 'full', method = 'ssh')\<close> of the remote-execution file.
  Without \<^verbatim>\<open>SSH_PASS\<close>, or with another method, the \<^verbatim>\<open>try\<close> block throws at once.
\<close>

definition runSync_ssh :: "env \<Rightarrow> string \<Rightarrow> string \<Rightarrow> world \<Rightarrow> world" where
  "runSync_ssh e mode_arg method_arg w =
     (if running (st w) then log_s e 1000 SyncAlreadyRunning Warn w
      else
        (let w1 = resetState w;
             w2 = poke (\<lambda>x. x\<lparr>running := True, mode := Some mode_arg, method_s := Some method_arg,
                               startTime := Some (clock e (length (trace w1)))\<rparr>) w1;
             w3 = updateProgress (\<lambda>x. x\<lparr>phase := Starting\<rparr>) w2
         in case (if method_arg = ''ssh'' \<and> ssh_pass e then runSSHSync e mode_arg w3 else Inl w3) of
              Inr s \<Rightarrow>
                (let w4 = poke (\<lambda>x. x\<lparr>endTime := Some (clock e (length (trace (world s))))\<rparr>) (world s);
                     w5 = updateProgress (\<lambda>x. x\<lparr>phase := Complete, running := False\<rparr>) w4
                 in log_s e 1000
                      (SyncCompleteMsg (totalCreated s) (totalUpdated s) (totalSkipped s)) Success w5)
            | Inl w' \<Rightarrow>
                (let w4 = log_s e 1000 SyncFailed Err w';
                     w5 = updateProgress (\<lambda>x. x\<lparr>phase := Error, running := False\<rparr>) w4
                 in poke (\<lambda>x. x\<lparr>endTime := Some (clock e (length (trace w5)))\<rparr>) w5)))"

text \<open>
  \<^verbatim>\<open>app.post('/api/sync', ...)\<close>: status 400 while a run is on, else the run is started
  with \<^verbatim>\<open>req.body.mode || 'full'\<close> and \<^verbatim>\<open>req.body.method || 'ssh'\<close>. (The handler answers
  before the run ends; the world returned here is the one the run leaves.)
  \<^verbatim>\<open>app.get('/api/status', ...)\<close> answers with \<^verbatim>\<open>syncState\<close>.
\<close>

datatype response = Status400 | Started

definition post_sync_ssh :: "env \<Rightarrow> string option \<Rightarrow> string option \<Rightarrow> world \<Rightarrow> response \<times> world" where
  "post_sync_ssh e body_mode body_method w =
     (if running (st w) then (Status400, w)
      else (Started, runSync_ssh e (or_default body_mode ''full'') (or_default body_method ''ssh'') w))"

definition get_status :: "world \<Rightarrow> syncState" where
  "get_status w = st w"

section \<open>The batched-HTTP backend (\<^verbatim>\<open>src/server.js\<close>)\<close>

text \<open>
  The snapshot loop. It goes on for as long as the store answers with full pages, so it
  is a partial function: \<open>None\<close> is a loop that never ends.
  \<^verbatim>\<open>while (hasMore) {
       try { const res = await wcApi.get('products', { per_page: 100, page, status: 'any' });
             const products = res.data; products.forEach(...);
             hasMore = products.length === 100; page++;
             if (page % 5 === 0) log(`Fetched ... products...`); }
       catch (e) { log(`Error fetching page ...`, 'warn'); hasMore = false; } }\<close>
\<close>

partial_function (option) fetch_existing ::
  "env \<Rightarrow> nat \<Rightarrow> rest_snapshot \<Rightarrow> world \<Rightarrow> (rest_snapshot \<times> world) option" where
  "fetch_existing e page existing w =
     (case wc_page e page of
        None \<Rightarrow> Some (existing, log_s e 500 (ErrorFetchingPage page) Warn w)
      | Some products \<Rightarrow>
          (let ex = register_page products existing;
               w' = (if (page + 1) mod 5 = 0 then log_s e 500 FetchedSoFar Info w else w)
           in if length products = 100 then fetch_existing e (page + 1) ex w' else Some (ex, w')))"

declare fetch_existing.simps [code]

text \<open>
  \<^verbatim>\<open>for (let j = 0; j < toCreate.length; j += config.BATCH_SIZE) {
       const batch = toCreate.slice(j, j + config.BATCH_SIZE);
       try { await wcApi.post('products/batch', { create: batch });
             syncState.created += batch.length;
             batch.forEach(p => existingProducts.set(p.sku, { id: 0, status: 'publish' }));
             updateProgress({ created: syncState.created }); }
       catch (e) { log(`Batch create error: ...`, 'warn'); } }\<close>
  with \<^verbatim>\<open>BATCH_SIZE\<close> 100; here a failed batch is followed by the next one.
\<close>

definition BATCH_SIZE :: nat where
  "BATCH_SIZE = 100"

function rest_create_batches ::
  "env \<Rightarrow> nat \<Rightarrow> create_data list \<Rightarrow> nat \<Rightarrow> rest_snapshot \<times> world \<Rightarrow> rest_snapshot \<times> world" where
  "rest_create_batches e i toCreate j (existing, w) =
     (if j < length toCreate then
        (let batch = take BATCH_SIZE (drop j toCreate)
         in rest_create_batches e i toCreate (j + 100)
              (if batch_create_ok e i j then
                 (let n = created (st w) + length batch
                  in (foldl (\<lambda>m p. m(cd_sku p \<mapsto> \<lparr>re_id = 0, re_status = ''publish''\<rparr>)) existing batch,
                      updateProgress (\<lambda>x. x\<lparr>created := n\<rparr>) (poke (\<lambda>x. x\<lparr>created := n\<rparr>) w)))
               else (existing, log_s e 500 BatchCreateError Warn w)))
      else (existing, w))"
  by pat_completeness auto
termination
  by (relation "measure (\<lambda>(e, i, toCreate, j, s). length toCreate - j)") auto

function rest_update_batches :: "env \<Rightarrow> nat \<Rightarrow> update_data list \<Rightarrow> nat \<Rightarrow> world \<Rightarrow> world" where
  "rest_update_batches e i toUpdate j w =
     (if j < length toUpdate then
        (let batch = take BATCH_SIZE (drop j toUpdate)
         in rest_update_batches e i toUpdate (j + 100)
              (if batch_update_ok e i j then
                 (let n = updated (st w) + length batch
                  in updateProgress (\<lambda>x. x\<lparr>updated := n\<rparr>) (poke (\<lambda>x. x\<lparr>updated := n\<rparr>) w))
               else log_s e 500 BatchUpdateError Warn w))
      else w)"
  by pat_completeness auto
termination
  by (relation "measure (\<lambda>(e, i, toUpdate, j, w). length toUpdate - j)") auto

text \<open>
  One turn of the group loop. A download that throws is passed over (\<^verbatim>\<open>continue\<close>) and
  nothing is counted. \<^verbatim>\<open>syncState.skipped++\<close> inside the row loop is written back once
  after it: nothing is broadcast in between.
\<close>

definition rest_group ::
  "env \<Rightarrow> bool \<Rightarrow> jsnum \<Rightarrow> group list \<Rightarrow> nat \<Rightarrow> row list option \<Rightarrow>
     rest_snapshot \<times> world \<Rightarrow> rest_snapshot \<times> world" where
  "rest_group e pricesOnly trm groups i fetched s =
     (let gid = groupId (groups ! i);
          setName = obj_get (groupsMap groups) gid;
          existing = fst s;
          w1 = updateProgress (\<lambda>x. x\<lparr>progress := i + 1, currentSet := setName\<rparr>) (snd s)
      in case fetched of
           None \<Rightarrow> (existing, w1)
         | Some products \<Rightarrow>
             (let singles = filter sellable products
              in if length singles = 0 then (existing, w1)
                 else
                   (let (toCreate, toUpdate, sk) =
                          rest_rows pricesOnly trm (abbrev_of groups gid) existing (skipped (st w1)) singles;
                        w2 = poke (\<lambda>x. x\<lparr>skipped := sk\<rparr>) w1;
                        s3 = (if \<not> pricesOnly then rest_create_batches e i toCreate 0 (existing, w2)
                              else (existing, w2));
                        w4 = rest_update_batches e i toUpdate 0 (snd s3)
                    in (fst s3,
                        if length toCreate > 0 \<or> length toUpdate > 0
                        then log_s e 500 (SetSynced setName (length toCreate) (length toUpdate)) Success w4
                        else w4))))"

definition rest_groups ::
  "env \<Rightarrow> bool \<Rightarrow> jsnum \<Rightarrow> group list \<Rightarrow> rest_snapshot \<times> world \<Rightarrow> rest_snapshot \<times> world" where
  "rest_groups e pricesOnly trm groups s =
     foldl (\<lambda>s i. rest_group e pricesOnly trm groups i (products_csv e i) s) s [0..<length groups]"

text \<open>
  The \<^verbatim>\<open>try\<close> block of the batched-HTTP \<^verbatim>\<open>runSync\<close>. \<open>Some (Inl w)\<close> is an exception
  leaving the block: the download of the group list, or the construction of the
  WooCommerce client, which refuses missing credentials (\<open>wc_configured\<close>). The block
  ends with
  \<^verbatim>\<open>syncState.endTime = new Date().toISOString();
     updateProgress({ phase: 'complete', running: false }); log(summary, 'success');\<close>
\<close>

definition rest_try :: "env \<Rightarrow> bool \<Rightarrow> world \<Rightarrow> (world + world) option" where
  "rest_try e pricesOnly w0 =
     (let w1 = updateProgress (\<lambda>x. x\<lparr>phase := Downloading\<rparr>) w0;
          w2 = log_s e 500 DownloadingCardData Info w1
      in case groups_csv e of
           None \<Rightarrow> Some (Inl w2)
         | Some groups \<Rightarrow>
             (let w3 = log_s e 500 (FoundSets (length groups)) Success w2;
                  w4 = updateProgress (\<lambda>x. x\<lparr>total_s := length groups\<rparr>) w3;
                  (trm, w5) = getTRM e 500 w4;
                  w6 = log_s e 500 (ExchangeRate trm) Info w5;
                  w7 = updateProgress (\<lambda>x. x\<lparr>phase := Connecting\<rparr>) w6;
                  w8 = log_s e 500 ConnectingWooCommerce Info w7
              in if \<not> wc_configured e then Some (Inl w8)
                 else
                   (let w9 = updateProgress (\<lambda>x. x\<lparr>phase := Fetching\<rparr>) w8;
                        w10 = log_s e 500 FetchingExisting Info w9
                    in case fetch_existing e 1 Map.empty w10 of
                         None \<Rightarrow> None
                       | Some (existing, w11) \<Rightarrow>
                           (let w12 = log_s e 500 FoundExisting Success w11;
                                w13 = updateProgress (\<lambda>x. x\<lparr>phase := Syncing, progress := 0\<rparr>) w12;
                                w14 = log_s e 500 StartingProductSync Info w13;
                                w15 = snd (rest_groups e pricesOnly trm groups (existing, w14));
                                w16 = poke (\<lambda>x. x\<lparr>endTime := Some (clock e (length (trace w15)))\<rparr>) w15;
                                w17 = updateProgress (\<lambda>x. x\<lparr>phase := Complete, running := False\<rparr>) w16
                            in Some (Inr (log_s e 500
                                            (SyncCompleteMsg (created (st w17)) (updated (st w17))
                                               (skipped (st w17)))
                                            Success w17))))))"

text \<open>
  \<^verbatim>\<open>async function runSync(mode = 'full')\<close> of the batched-HTTP file, whose handler is
  \<^verbatim>\<open>catch (e) { log(`Sync failed: ...`, 'error');
       updateProgress({ phase: 'error', running: false }); }\<close>
\<close>

definition runSync_rest :: "env \<Rightarrow> string \<Rightarrow> world \<Rightarrow> world option" where
  "runSync_rest e mode_arg w =
     (if running (st w) then Some (log_s e 500 SyncAlreadyRunning Warn w)
      else
        (let pricesOnly = (mode_arg = ''prices'');
             w1 = resetState w;
             w2 = poke (\<lambda>x. x\<lparr>running := True, mode := Some mode_arg,
                               startTime := Some (clock e (length (trace w1)))\<rparr>) w1;
             w3 = updateProgress (\<lambda>x. x\<lparr>phase := Starting\<rparr>) w2;
             w4 = log_s e 500 (StartingSync pricesOnly) Info w3
         in case rest_try e pricesOnly w4 of
              None \<Rightarrow> None
            | Some (Inr w') \<Rightarrow> Some w'
            | Some (Inl w') \<Rightarrow>
                Some (updateProgress (\<lambda>x. x\<lparr>phase := Error, running := False\<rparr>)
                        (log_s e 500 SyncFailed Err w'))))"

definition post_sync_rest :: "env \<Rightarrow> string option \<Rightarrow> world \<Rightarrow> (response \<times> world) option" where
  "post_sync_rest e body_mode w =
     (if running (st w) then Some (Status400, w)
      else (case runSync_rest e (or_default body_mode ''full'') w of
              None \<Rightarrow> None
            | Some w' \<Rightarrow> Some (Started, w')))"

section \<open>Example inputs and auxiliary notions\<close>

text \<open>
  The feed of the specification's scenario: one group with row A (number \<^verbatim>\<open>4/102\<close>, market
  price \<^verbatim>\<open>2.50\<close>) and row B (no number), at the rate 4000.
\<close>

definition row_A :: row where
  "row_A = \<lparr>productId = Some ''1001'', subTypeName = None, extNumber = Some ''4/102'',
            marketPrice = Some ''2.50''\<rparr>"

definition row_B :: row where
  "row_B = \<lparr>productId = Some ''1002'', subTypeName = None, extNumber = None,
            marketPrice = Some ''3.00''\<rparr>"


definition group_1 :: group where
  "group_1 = \<lparr>groupId = Some ''604'', g_name = Some ''Base Set'', g_abbreviation = Some ''BS''\<rparr>"

definition idle_world :: world where
  "idle_world = \<lparr>st = initial_state, trace = []\<rparr>"

definition busy_world :: world where
  "busy_world = \<lparr>st = initial_state\<lparr>running := True, phase := Syncing, skipped := 3\<rparr>, trace = []\<rparr>"

text \<open>
  An environment in which every request succeeds: the rate service answers 4000, the
  store is empty, every batch goes through and every remote creation prints an id.
\<close>

definition example_env :: env where
  "example_env =
     \<lparr>clock = (\<lambda>n. n),
      groups_csv = Some [group_1],
      trm_response = Body (JArr [JObj [(''valor'', JStr ''4000'')]]),
      products_csv = (\<lambda>i. Some [row_A, row_B]),
      ssh_pass = True,
      existing_raw = Some [],
      update_ok = (\<lambda>i j. True),
      create_result = (\<lambda>i k. Some ''812''),
      wc_configured = True,
      wc_page = (\<lambda>page. Some []),
      batch_create_ok = (\<lambda>i j. True),
      batch_update_ok = (\<lambda>i j. True)\<rparr>"


text \<open>The locals of \<^verbatim>\<open>runSSHSync\<close> as the group loop finds them, over an empty store.\<close>

definition fresh_run :: ssh_run where
  "fresh_run =
     \<lparr>totalCreated = 0, totalUpdated = 0, totalSkipped = 0, totalErrors = 0,
      existingProducts = Map.empty, world = idle_world, issued = []\<rparr>"






text \<open>
  The row loops read as a decision per row: the key of a row, what the loop does with
  it, and the operation it appends.
\<close>

definition entry_key :: "string option \<Rightarrow> row \<Rightarrow> string" where
  "entry_key abbrev r = sku (productId r) (subTypeName r) abbrev"

datatype decision = CREATE | UPDATE | SKIP

definition ssh_decision :: "bool \<Rightarrow> jsnum \<Rightarrow> string option \<Rightarrow> ssh_snapshot \<Rightarrow> row \<Rightarrow> decision" where
  "ssh_decision pricesOnly trm abbrev existing r =
     (case existing (entry_key abbrev r) of
        Some x \<Rightarrow>
          if js_gt (js_abs (js_sub (ex_price x) (priceCOP_ssh r trm))) (Fin 1) then UPDATE else SKIP
      | None \<Rightarrow> if pricesOnly then SKIP else CREATE)"

definition ssh_update_of :: "jsnum \<Rightarrow> string option \<Rightarrow> ssh_snapshot \<Rightarrow> row \<Rightarrow> price_update" where
  "ssh_update_of trm abbrev existing r =
     \<lparr>pu_id = (case existing (entry_key abbrev r) of Some x \<Rightarrow> ex_id x | None \<Rightarrow> None),
      pu_price = priceCOP_ssh r trm\<rparr>"

definition ssh_new_of :: "jsnum \<Rightarrow> string option \<Rightarrow> row \<Rightarrow> new_product" where
  "ssh_new_of trm abbrev r = \<lparr>np_sku = entry_key abbrev r, np_price = priceCOP_ssh r trm\<rparr>"


text \<open>What one group added to the four counters of \<^verbatim>\<open>runSSHSync\<close>.\<close>

definition counted :: "ssh_run \<Rightarrow> nat" where
  "counted s = totalCreated s + totalUpdated s + totalSkipped s + totalErrors s"

text \<open>
  The remote store as the snapshot query would list it after a sequence of commands
  (an assumption about the remote host, not code of this repository): an \<^verbatim>\<open>UPDATE\<close> pair
  that went through sets the price of every product whose id it names, to the value of
  the first \<^verbatim>\<open>WHEN\<close> that matches; a creation that went through and printed something
  other than \<^verbatim>\<open>SKIP\<close> adds the product under its SKU, with the id printed and the price
  sent; a command that failed is taken to have changed nothing. Prices are read back as
  the snapshot does (\<^verbatim>\<open>parseFloat(price) || 0\<close>).
\<close>

definition apply_update :: "price_update list \<Rightarrow> ssh_snapshot \<Rightarrow> ssh_snapshot" where
  "apply_update batch snap =
     (\<lambda>k. case snap k of
            None \<Rightarrow> None
          | Some x \<Rightarrow>
              (case find (\<lambda>u. pu_id u = ex_id x) batch of
                 None \<Rightarrow> Some x
               | Some u \<Rightarrow> Some (x\<lparr>ex_price := num_or_zero (pu_price u)\<rparr>)))"

fun apply_cmd :: "remote_cmd \<Rightarrow> ssh_snapshot \<Rightarrow> ssh_snapshot" where
  "apply_cmd (UpdatePrices batch ok) snap = (if ok then apply_update batch snap else snap)"
| "apply_cmd (CreateProduct p out) snap =
     (case out of
        None \<Rightarrow> snap
      | Some result \<Rightarrow>
          if js_trim result \<noteq> ''SKIP''
          then snap(np_sku p \<mapsto> \<lparr>ex_id = parseInt result, ex_price = num_or_zero (np_price p)\<rparr>)
          else snap)"

definition store_after :: "remote_cmd list \<Rightarrow> ssh_snapshot \<Rightarrow> ssh_snapshot" where
  "store_after cmds snap = foldl (\<lambda>m c. apply_cmd c m) snap cmds"







section \<open>Verified properties\<close>

subsection \<open>Helper facts about parsing\<close>




subsection \<open>The external key\<close>

text \<open>
  Claim C4, as amended. The key is a function of the printed product id, the slug of
  the variant label and the printed abbreviation. With the other two inputs fixed,
  two product ids give the same key exactly when they print the same, two
  abbreviations likewise, and two variant labels give the same key exactly when they
  have the same slug (after the defaults \<^verbatim>\<open>normal\<close> and \<^verbatim>\<open>base\<close>).
\<close>

theorem C4_sku_changes:
  "(sku p v a = sku p' v a \<longleftrightarrow> tmpl p = tmpl p') \<and>
   (sku p v a = sku p v a' \<longleftrightarrow> tmpl a = tmpl a') \<and>
   (sku p v a = sku p v' a \<longleftrightarrow> subType v = subType v')"
  by (simp add: sku_def)

text \<open>
  Claim C4 as stated fails: the labels \<^verbatim>\<open>Normal\<close>, \<^verbatim>\<open>normal\<close> and a missing label are
  three different inputs with one key.
\<close>

theorem C4_variant_label_collision:
  "Some ''Normal'' \<noteq> Some ''normal'' \<and> Some ''Normal'' \<noteq> (None :: string option) \<and>
   sku (Some ''1001'') (Some ''Normal'') (Some ''BS'') =
     sku (Some ''1001'') (Some ''normal'') (Some ''BS'') \<and>
   sku (Some ''1001'') (Some ''Normal'') (Some ''BS'') = sku (Some ''1001'') None (Some ''BS'') \<and>
   sku (Some ''1001'') None (Some ''BS'') = ''1001-normal-BS''"
  by (simp add: sku_def subType_def or_default_def slugify_def js_trim_def toLowerCase_def
        toLowerCase_char_def is_space_def slug_char_def is_digit_def tmpl_def)

subsection \<open>Facts about numbers and the example rows\<close>

lemma js_le_not_gt: "js_le a b \<Longrightarrow> \<not> js_gt a b"
  by (cases a; cases b) (auto simp: js_gt_def)

lemma js_sub_self_not_gt: "\<not> js_gt (js_abs (js_sub a a)) (Fin 1)"
  by (cases a) (auto simp: js_gt_def)

lemma sku_A: "sku (productId row_A) (subTypeName row_A) (Some ''BS'') = ''1001-normal-BS''"
  by (simp add: row_A_def sku_def subType_def or_default_def slugify_def js_trim_def toLowerCase_def
        toLowerCase_char_def is_space_def slug_char_def is_digit_def tmpl_def)

lemma parse_250: "parseFloat ''2.50'' = Fin (5 / 2)"
  by (simp add: parseFloat_def is_space_def is_digit_def digits_val_def digit_val_def exponent_part_def)

lemma price_A_ssh: "priceCOP_ssh row_A (Fin 4000) = Fin 10000"
  by (simp add: priceCOP_ssh_def rounded_ssh_def row_A_def parseFloat_field_def tmpl_def parse_250 MIN_PRICE_COP_def)

lemma price_A_rest: "priceCOP_rest row_A (Fin 4000) = Fin 10000"
  by (simp add: priceCOP_rest_def rounded_rest_def row_A_def parseFloat_field_def tmpl_def parse_250 MIN_PRICE_COP_def)

subsection \<open>The row loops as decisions\<close>

lemma ssh_foldl:
  "foldl (ssh_row pO trm ab ex) (pus, nps, n) rows =
     (pus @ map (ssh_update_of trm ab ex) (filter (\<lambda>r. ssh_decision pO trm ab ex r = UPDATE) rows),
      nps @ map (ssh_new_of trm ab) (filter (\<lambda>r. ssh_decision pO trm ab ex r = CREATE) rows),
      n + length (filter (\<lambda>r. ssh_decision pO trm ab ex r = SKIP) rows))"
  by (induction rows arbitrary: pus nps n)
    (auto simp: ssh_decision_def ssh_update_of_def ssh_new_of_def entry_key_def Let_def
          split: option.splits)

lemma ssh_rows_decisions:
  "ssh_rows pO trm ab ex n singles =
     (map (ssh_update_of trm ab ex) (filter (\<lambda>r. ssh_decision pO trm ab ex r = UPDATE) singles),
      map (ssh_new_of trm ab) (filter (\<lambda>r. ssh_decision pO trm ab ex r = CREATE) singles),
      n + length (filter (\<lambda>r. ssh_decision pO trm ab ex r = SKIP) singles))"
  by (simp add: ssh_rows_def ssh_foldl)


lemma decision_partition:
  "length (filter (\<lambda>r. d r = UPDATE) rows) + length (filter (\<lambda>r. d r = CREATE) rows) +
   length (filter (\<lambda>r. d r = SKIP) rows) = length rows"
proof (induction rows)
  case Nil
  then show ?case by simp
next
  case (Cons r rows)
  then show ?case by (cases "d r") auto
qed

subsection \<open>The differ on an entry found in the snapshot\<close>

text \<open>
  Claim C1, as amended. For an entry whose key is in the snapshot, the row loop of the
  remote-execution backend skips it (counts it in \<^verbatim>\<open>totalSkipped\<close>, appends nothing) when
  the stored and the computed price differ by at most 1, and in particular when they are
  equal; it appends an update only when they differ by more than 1, and then the update
  carries the stored id and the computed price. The row loop of the batched-HTTP
  backend, whose snapshot holds no price, appends an update for every entry found.
\<close>

theorem C1_differ_found:
  "(sshSnap (sku (productId r) (subTypeName r) abbrev) = Some ex \<longrightarrow>
      (js_le (js_abs (js_sub (ex_price ex) (priceCOP_ssh r trm))) (Fin 1) \<longrightarrow>
         ssh_row pO trm abbrev sshSnap (pus, nps, n) r = (pus, nps, n + 1)) \<and>
      (ex_price ex = priceCOP_ssh r trm \<longrightarrow>
         ssh_row pO trm abbrev sshSnap (pus, nps, n) r = (pus, nps, n + 1)) \<and>
      (ssh_row pO trm abbrev sshSnap (pus, nps, n) r = (pus, nps, n + 1) \<or>
       js_gt (js_abs (js_sub (ex_price ex) (priceCOP_ssh r trm))) (Fin 1) \<and>
       ssh_row pO trm abbrev sshSnap (pus, nps, n) r =
         (pus @ [\<lparr>pu_id = ex_id ex, pu_price = priceCOP_ssh r trm\<rparr>], nps, n))) \<and>
   (restSnap (sku (productId r) (subTypeName r) abbrev) = Some rex \<longrightarrow>
      rest_row pO trm abbrev restSnap (cs, us, n) r =
        (cs,
         us @ [\<lparr>ud_id = re_id rex, ud_regular_price = priceCOP_rest r trm, ud_refresh = (\<not> pO),
                 ud_status = (if \<not> pO \<and> re_status rex = ''trash'' then Some ''publish'' else None)\<rparr>],
         n))"
  using js_le_not_gt[of "js_abs (js_sub (ex_price ex) (priceCOP_ssh r trm))" "Fin 1"]
        js_sub_self_not_gt[of "priceCOP_ssh r trm"]
  by (auto simp: Let_def)

text \<open>
  Witness for C1: row A at the rate 4000 against a snapshot that stores its key with
  the price 10000 is skipped by the remote-execution loop and updated by the
  batched-HTTP loop.
\<close>

theorem C1_differ_found_witness:
  "ssh_row False (Fin 4000) (Some ''BS'')
      (Map.empty(''1001-normal-BS'' \<mapsto> \<lparr>ex_id = Some 7, ex_price = Fin 10000\<rparr>)) ([], [], 0) row_A
     = ([], [], 1) \<and>
   rest_row False (Fin 4000) (Some ''BS'')
      (Map.empty(''1001-normal-BS'' \<mapsto> \<lparr>re_id = 7, re_status = ''publish''\<rparr>)) ([], [], 0) row_A
     = ([], [\<lparr>ud_id = 7, ud_regular_price = Fin 10000, ud_refresh = True, ud_status = None\<rparr>], 0)"
proof -
  let ?S = "Map.empty(''1001-normal-BS'' \<mapsto> \<lparr>ex_id = Some (7::int), ex_price = Fin 10000\<rparr>)"
  let ?R = "Map.empty(''1001-normal-BS'' \<mapsto> \<lparr>re_id = 7, re_status = ''publish''\<rparr>)"
  have found: "?S (sku (productId row_A) (subTypeName row_A) (Some ''BS'')) =
      Some \<lparr>ex_id = Some 7, ex_price = Fin 10000\<rparr>"
    by (simp add: sku_A)
  have same: "ex_price \<lparr>ex_id = Some (7::int), ex_price = Fin 10000\<rparr> = priceCOP_ssh row_A (Fin 4000)"
    by (simp add: price_A_ssh)
  have rfound: "?R (sku (productId row_A) (subTypeName row_A) (Some ''BS'')) =
      Some \<lparr>re_id = 7, re_status = ''publish''\<rparr>"
    by (simp add: sku_A)
  note inst = C1_differ_found[of ?S row_A "Some ''BS''" "\<lparr>ex_id = Some 7, ex_price = Fin 10000\<rparr>"
      "Fin 4000" False "[]" "[]" 0 ?R "\<lparr>re_id = 7, re_status = ''publish''\<rparr>" "[]" "[]"]
  have a: "ssh_row False (Fin 4000) (Some ''BS'') ?S ([], [], 0) row_A = ([], [], 1)"
    using inst found same by simp
  have b: "rest_row False (Fin 4000) (Some ''BS'') ?R ([], [], 0) row_A =
      ([], [\<lparr>ud_id = 7, ud_regular_price = Fin 10000, ud_refresh = True, ud_status = None\<rparr>], 0)"
    using inst rfound by (simp add: price_A_rest)
  show ?thesis using a b by (rule conjI)
qed

text \<open>
  Claim C1 as stated fails in the batched-HTTP backend: the store lists row A's key
  with the price 10000, the computed price is 10000, and the row loop still issues an
  update and skips nothing.
\<close>

theorem C1_rest_updates_equal_price:
  "parseFloat (wc_regular_price \<lparr>wc_sku = Some ''1001-normal-BS'', wc_id = 7, wc_status = ''publish'',
                                 wc_regular_price = ''10000''\<rparr>) = priceCOP_rest row_A (Fin 4000) \<and>
   rest_rows False (Fin 4000) (Some ''BS'')
      (register_page [\<lparr>wc_sku = Some ''1001-normal-BS'', wc_id = 7, wc_status = ''publish'',
                        wc_regular_price = ''10000''\<rparr>] Map.empty) 0 [row_A]
     = ([], [\<lparr>ud_id = 7, ud_regular_price = Fin 10000, ud_refresh = True, ud_status = None\<rparr>], 0)"
  by (simp add: rest_rows_def register_page_def truthy_def tmpl_def sku_A[simplified tmpl_def] price_A_rest
       parseFloat_def is_space_def is_digit_def digits_val_def digit_val_def exponent_part_def)

subsection \<open>The price clamp\<close>






subsection \<open>The sellable filter\<close>







subsection \<open>Writes to the run state\<close>

lemma st_log_s [simp]:
  "st (log_s e cap m ty w) =
     (st w)\<lparr>logs :=
        (if length (logs (st w)) + 1 > cap
         then tl (logs (st w) @ [\<lparr>timestamp = clock e (length (trace w)), msg = m, severity = ty\<rparr>])
         else logs (st w) @ [\<lparr>timestamp = clock e (length (trace w)), msg = m, severity = ty\<rparr>])\<rparr>"
  by (simp add: log_s_def Let_def)

lemma trace_log_s [simp]: "trace (log_s e cap m ty w) = trace w @ [st (log_s e cap m ty w)]"
  by (simp add: log_s_def Let_def)

lemma st_updateProgress [simp]: "st (updateProgress f w) = f (st w)"
  by (simp add: updateProgress_def)

lemma trace_updateProgress [simp]: "trace (updateProgress f w) = trace w @ [f (st w)]"
  by (simp add: updateProgress_def)

lemma st_poke [simp]: "st (poke f w) = f (st w)"
  by (simp add: poke_def)

lemma trace_poke [simp]: "trace (poke f w) = trace w"
  by (simp add: poke_def)

lemma st_resetState [simp]: "st (resetState w) = initial_state"
  by (simp add: resetState_def)

lemma trace_resetState [simp]: "trace (resetState w) = trace w"
  by (simp add: resetState_def)

subsection \<open>The entry guard\<close>

text \<open>
  Claim C3, as amended. While a run is on, \<^verbatim>\<open>POST /api/sync\<close> answers 400 and leaves the
  whole world as it was, in both files. A direct call of \<^verbatim>\<open>runSync\<close> starts nothing
  either, but it logs the warning: the state it leaves is the old one except for
  \<^verbatim>\<open>logs\<close>, which gains the warning entry (and loses its oldest entry past the cap).
\<close>

theorem C3_start_while_running:
  assumes "running (st w)"
  shows "post_sync_ssh e body_mode body_method w = (Status400, w) \<and>
         post_sync_rest e body_mode w = Some (Status400, w) \<and>
         runSync_ssh e m meth w = log_s e 1000 SyncAlreadyRunning Warn w \<and>
         runSync_rest e m w = Some (log_s e 500 SyncAlreadyRunning Warn w) \<and>
         st (log_s e cap SyncAlreadyRunning Warn w) =
           (st w)\<lparr>logs :=
              (if length (logs (st w)) + 1 > cap
               then tl (logs (st w) @ [\<lparr>timestamp = clock e (length (trace w)),
                                         msg = SyncAlreadyRunning, severity = Warn\<rparr>])
               else logs (st w) @ [\<lparr>timestamp = clock e (length (trace w)),
                                     msg = SyncAlreadyRunning, severity = Warn\<rparr>])\<rparr>"
  using assms
  by (simp add: post_sync_ssh_def post_sync_rest_def runSync_ssh_def runSync_rest_def st_log_s)

text \<open>Witness for C3, on a world whose run is in the syncing phase.\<close>

theorem C3_start_while_running_witness:
  "running (st busy_world) \<and>
   post_sync_ssh example_env None None busy_world = (Status400, busy_world) \<and>
   post_sync_rest example_env None busy_world = Some (Status400, busy_world) \<and>
   st (runSync_ssh example_env ''full'' ''ssh'' busy_world) =
     (st busy_world)\<lparr>logs := [\<lparr>timestamp = 0, msg = SyncAlreadyRunning, severity = Warn\<rparr>]\<rparr>"
proof -
  have r: "running (st busy_world)"
    by (simp add: busy_world_def)
  note inst = C3_start_while_running[OF r, of example_env None None "''full''" "''ssh''" 1000]
  have a: "post_sync_ssh example_env None None busy_world = (Status400, busy_world)"
    using inst by simp
  have b: "post_sync_rest example_env None busy_world = Some (Status400, busy_world)"
    using inst by simp
  have c: "st (runSync_ssh example_env ''full'' ''ssh'' busy_world) =
     (st busy_world)\<lparr>logs := [\<lparr>timestamp = 0, msg = SyncAlreadyRunning, severity = Warn\<rparr>]\<rparr>"
    using inst by (simp add: busy_world_def initial_state_def example_env_def)
  from r a b c show ?thesis by blast
qed

text \<open>
  Claim C3 as stated fails for a direct call: \<^verbatim>\<open>runSync\<close> on a running state changes
  the field \<^verbatim>\<open>logs\<close>, in both files.
\<close>

theorem C3_runSync_guard_writes_logs:
  "running (st busy_world) \<and>
   logs (st busy_world) = [] \<and>
   logs (st (runSync_ssh example_env ''full'' ''ssh'' busy_world)) =
     [\<lparr>timestamp = 0, msg = SyncAlreadyRunning, severity = Warn\<rparr>] \<and>
   map_option (\<lambda>w. logs (st w)) (runSync_rest example_env ''full'' busy_world) =
     Some [\<lparr>timestamp = 0, msg = SyncAlreadyRunning, severity = Warn\<rparr>]"
  by (simp add: busy_world_def initial_state_def example_env_def runSync_ssh_def runSync_rest_def
        log_s_def Let_def)

subsection \<open>The currency rate provider\<close>

text \<open>
  Claim C8 at its failing inputs. When the rate service answers with a first record
  that has no \<^verbatim>\<open>valor\<close> field, or whose \<^verbatim>\<open>valor\<close> is not a number, nothing throws:
  \<^verbatim>\<open>getTRM\<close> returns \<^verbatim>\<open>NaN\<close> and logs nothing, with either log cap. A negative \<^verbatim>\<open>valor\<close>
  is returned as it is. Only a request that throws gives 4200 and the warning.
\<close>

theorem C8_getTRM_missing_field:
  "getTRM (example_env\<lparr>trm_response := Body (JArr [JObj [(''vigenciadesde'', JStr ''2024-01-01'')]])\<rparr>)
      1000 idle_world = (NaN, idle_world) \<and>
   getTRM (example_env\<lparr>trm_response := Body (JArr [JObj [(''vigenciadesde'', JStr ''2024-01-01'')]])\<rparr>)
      500 idle_world = (NaN, idle_world) \<and>
   getTRM (example_env\<lparr>trm_response := Body (JArr [JObj [(''valor'', JStr ''n/a'')]])\<rparr>)
      1000 idle_world = (NaN, idle_world) \<and>
   fst (getTRM (example_env\<lparr>trm_response := Body (JArr [JObj [(''valor'', JStr ''-1'')]])\<rparr>)
      1000 idle_world) = Fin (- 1) \<and>
   getTRM (example_env\<lparr>trm_response := FetchFailed\<rparr>) 1000 idle_world =
     (Fin 4200, log_s example_env 1000 CouldNotFetchTRM Warn idle_world)"
  by (simp add: getTRM_def example_env_def lookup_last_def parseFloat_val_def parseFloat_def
        is_space_def is_digit_def digits_val_def digit_val_def exponent_part_def log_s_def)

subsection \<open>Failures that leave the run body\<close>

lemma rest_try_no_groups:
  "groups_csv e = None \<Longrightarrow>
     rest_try e pO w =
       Some (Inl (log_s e 500 DownloadingCardData Info
                    (updateProgress (\<lambda>x. x\<lparr>phase := Downloading\<rparr>) w)))"
  by (simp add: rest_try_def)

lemma runSync_rest_no_groups:
  assumes "\<not> running (st w)" and "groups_csv e = None"
  shows "\<exists>w'. runSync_rest e m w = Some w' \<and> phase (st w') = Error \<and> \<not> running (st w') \<and>
           endTime (st w') = None \<and> startTime (st w') = Some (clock e (length (trace w)))"
  using assms by (simp add: runSync_rest_def rest_try_no_groups Let_def initial_state_def)

lemma runSSHSync_no_groups:
  "groups_csv e = None \<Longrightarrow> \<exists>w'. runSSHSync e m w = Inl w'"
  by (simp add: runSSHSync_def runSSHSync_loop_def Let_def)

lemma runSync_ssh_failure:
  assumes "\<not> running (st w)"
    and "\<exists>w'. runSSHSync e m (updateProgress (\<lambda>x. x\<lparr>phase := Starting\<rparr>)
             (poke (\<lambda>x. x\<lparr>running := True, mode := Some m, method_s := Some ''ssh'',
                            startTime := Some (clock e (length (trace (resetState w))))\<rparr>)
                (resetState w))) = Inl w'"
  shows "phase (st (runSync_ssh e m ''ssh'' w)) = Error \<and> \<not> running (st (runSync_ssh e m ''ssh'' w)) \<and>
         endTime (st (runSync_ssh e m ''ssh'' w)) \<noteq> None"
  using assms by (auto simp: runSync_ssh_def Let_def)

text \<open>
  Claim C9 at its failing input, in the batched-HTTP file: the download of the group
  list throws in a run started from the idle state. The handler sets the phase
  \<^verbatim>\<open>error\<close> and \<^verbatim>\<open>running = false\<close>, and \<^verbatim>\<open>endTime\<close> is still \<^verbatim>\<open>null\<close> (the start time was
  recorded). The handler of the remote-execution file records \<^verbatim>\<open>endTime\<close> on the same
  failure (\<open>runSync_ssh_failure\<close> with \<open>runSSHSync_no_groups\<close>).
\<close>

theorem C9_rest_failure_leaves_no_endTime:
  "\<exists>w'. runSync_rest (example_env\<lparr>groups_csv := None\<rparr>) ''full'' idle_world = Some w' \<and>
     phase (st w') = Error \<and> \<not> running (st w') \<and> endTime (st w') = None \<and> startTime (st w') = Some 0"
proof -
  have a: "\<not> running (st idle_world)"
    by (simp add: idle_world_def initial_state_def)
  have b: "groups_csv (example_env\<lparr>groups_csv := None\<rparr>) = None"
    by simp
  from runSync_rest_no_groups[OF a b, of "''full''"] show ?thesis
    by (simp add: idle_world_def example_env_def)
qed

subsection \<open>Broadcast traces\<close>













subsection \<open>The loops of the remote-execution backend\<close>

declare ssh_update_batches.simps [simp del]

lemma ssh_update_batches_stop:
  "\<not> j < length pus \<Longrightarrow> ssh_update_batches e i pus j s = s"
  by (subst ssh_update_batches.simps) simp

lemma ssh_update_batches_fail:
  "j < length pus \<Longrightarrow> \<not> update_ok e i j \<Longrightarrow>
     ssh_update_batches e i pus j s =
       s\<lparr>totalErrors := totalErrors s + 1,
          world := log_s e 1000 PriceUpdateError Warn (world s),
          issued := issued s @ [UpdatePrices (take 500 (drop j pus)) False]\<rparr>"
  by (subst ssh_update_batches.simps) (simp add: Let_def)

lemma ssh_update_batches_ok:
  "j < length pus \<Longrightarrow> update_ok e i j \<Longrightarrow>
     ssh_update_batches e i pus j s =
       ssh_update_batches e i pus (j + 500)
         (s\<lparr>totalUpdated := totalUpdated s + length (take 500 (drop j pus)),
            world := updateProgress
              (\<lambda>x. x\<lparr>updated := totalUpdated s + length (take 500 (drop j pus))\<rparr>) (world s),
            issued := issued s @ [UpdatePrices (take 500 (drop j pus)) True]\<rparr>)"
  by (subst ssh_update_batches.simps) (simp add: Let_def)

lemma ssh_update_batches_counted:
  "counted s \<le> counted (ssh_update_batches e i pus j s) \<and>
   counted (ssh_update_batches e i pus j s) \<le> counted s + (length pus - j) \<and>
   totalCreated (ssh_update_batches e i pus j s) = totalCreated s \<and>
   totalSkipped (ssh_update_batches e i pus j s) = totalSkipped s \<and>
   existingProducts (ssh_update_batches e i pus j s) = existingProducts s"
proof (induction e i pus j s rule: ssh_update_batches.induct)
  case (1 e i priceUpdates j s)
  show ?case
  proof (cases "j < length priceUpdates")
    case False
    then show ?thesis by (simp add: ssh_update_batches_stop)
  next
    case more: True
    show ?thesis
    proof (cases "update_ok e i j")
      case False
      with more show ?thesis
        by (simp add: ssh_update_batches_fail counted_def)
    next
      case ok: True
      define s' where "s' =
        s\<lparr>totalUpdated := totalUpdated s + length (take 500 (drop j priceUpdates)),
          world := updateProgress
            (\<lambda>x. x\<lparr>updated := totalUpdated s + length (take 500 (drop j priceUpdates))\<rparr>) (world s),
          issued := issued s @ [UpdatePrices (take 500 (drop j priceUpdates)) True]\<rparr>"
      have step: "ssh_update_batches e i priceUpdates j s =
                  ssh_update_batches e i priceUpdates (j + 500) s'"
        unfolding s'_def using more ok by (rule ssh_update_batches_ok)
      have ih: "counted s' \<le> counted (ssh_update_batches e i priceUpdates (j + 500) s') \<and>
         counted (ssh_update_batches e i priceUpdates (j + 500) s')
           \<le> counted s' + (length priceUpdates - (j + 500)) \<and>
         totalCreated (ssh_update_batches e i priceUpdates (j + 500) s') = totalCreated s' \<and>
         totalSkipped (ssh_update_batches e i priceUpdates (j + 500) s') = totalSkipped s' \<and>
         existingProducts (ssh_update_batches e i priceUpdates (j + 500) s') = existingProducts s'"
        using "1.IH"[OF more refl ok refl] unfolding s'_def .
      have c: "counted s' = counted s + min 500 (length priceUpdates - j)"
        by (simp add: s'_def counted_def)
      have f: "totalCreated s' = totalCreated s" "totalSkipped s' = totalSkipped s"
        "existingProducts s' = existingProducts s"
        by (simp_all add: s'_def)
      from ih c f more show ?thesis unfolding step by auto
    qed
  qed
qed

lemma ssh_creates_counted:
  "counted s \<le> counted (ssh_creates e i k nps s) \<and>
   counted (ssh_creates e i k nps s) \<le> counted s + length nps \<and>
   totalUpdated (ssh_creates e i k nps s) = totalUpdated s \<and>
   totalSkipped (ssh_creates e i k nps s) = totalSkipped s"
proof (induction nps arbitrary: k s)
  case Nil
  then show ?case by simp
next
  case (Cons p ps)
  define s' where "s' =
    (case create_result e i k of
       None \<Rightarrow> s\<lparr>totalErrors := totalErrors s + 1, issued := issued s @ [CreateProduct p None]\<rparr>
     | Some result \<Rightarrow>
         if js_trim result \<noteq> ''SKIP''
         then s\<lparr>totalCreated := totalCreated s + 1,
                existingProducts :=
                  (existingProducts s)(np_sku p \<mapsto> \<lparr>ex_id = parseInt result, ex_price = np_price p\<rparr>),
                world := updateProgress (\<lambda>x. x\<lparr>created := totalCreated s + 1\<rparr>) (world s),
                issued := issued s @ [CreateProduct p (Some result)]\<rparr>
         else s\<lparr>issued := issued s @ [CreateProduct p (Some result)]\<rparr>)"
  have step: "ssh_creates e i k (p # ps) s = ssh_creates e i (k + 1) ps s'"
    by (simp add: s'_def)
  have c: "counted s \<le> counted s' \<and> counted s' \<le> counted s + 1 \<and>
           totalUpdated s' = totalUpdated s \<and> totalSkipped s' = totalSkipped s"
    by (simp add: s'_def counted_def split: option.splits)
  from Cons.IH[where k = "k + 1" and s = s'] c show ?case unfolding step by auto
qed


text \<open>One turn of the group loop, with the row loop read as decisions.\<close>

lemma no_create_in_prices_mode: "ssh_decision True trm ab ex r \<noteq> CREATE"
  by (simp add: ssh_decision_def split: option.splits)

lemma ssh_group_None:
  "ssh_group e pO trm groups i None s =
     s\<lparr>world := updateProgress
          (\<lambda>x. x\<lparr>progress := i + 1, currentSet := obj_get (groupsMap groups) (groupId (groups ! i))\<rparr>)
          (world s),
       totalErrors := totalErrors s + 1\<rparr>"
  by (simp add: ssh_group_def Let_def)

lemma ssh_group_Some:
  "ssh_group e pO trm groups i (Some products) s =
     (let ab = abbrev_of groups (groupId (groups ! i));
          singles = filter sellable products;
          d = ssh_decision pO trm ab (existingProducts s);
          s1 = s\<lparr>world := updateProgress
                 (\<lambda>x. x\<lparr>progress := i + 1,
                         currentSet := obj_get (groupsMap groups) (groupId (groups ! i))\<rparr>)
                 (world s)\<rparr>;
          s2 = s1\<lparr>totalSkipped := totalSkipped s + length (filter (\<lambda>r. d r = SKIP) singles)\<rparr>;
          s3 = ssh_update_batches e i
                 (map (ssh_update_of trm ab (existingProducts s)) (filter (\<lambda>r. d r = UPDATE) singles)) 0 s2;
          s4 = ssh_creates e i 0 (map (ssh_new_of trm ab) (filter (\<lambda>r. d r = CREATE) singles)) s3
      in if singles = [] then s1
         else if (i + 1) mod 10 = 0
         then s4\<lparr>world := log_s e 1000
                    (SetsProgress (i + 1) (length groups) (totalUpdated s4) (totalCreated s4)
                       (totalSkipped s4)) Info (world s4)\<rparr>
         else s4)"
proof (cases pO)
  case True
  have nc: "filter (\<lambda>r. ssh_decision True trm ab ex r = CREATE) rows = []" for ab ex rows
    by (simp add: no_create_in_prices_mode)
  from True show ?thesis
    by (simp add: ssh_group_def ssh_rows_decisions Let_def ssh_update_batches_stop nc)
next
  case False
  then show ?thesis
    by (simp add: ssh_group_def ssh_rows_decisions Let_def ssh_update_batches_stop)
qed

lemma ssh_group_counted:
  "counted s \<le> counted (ssh_group e pO trm groups i (Some products) s) \<and>
   counted (ssh_group e pO trm groups i (Some products) s)
     \<le> counted s + length (filter sellable products)"
proof -
  define ab where "ab = abbrev_of groups (groupId (groups ! i))"
  define singles where "singles = filter sellable products"
  define d where "d = ssh_decision pO trm ab (existingProducts s)"
  define s1 where "s1 = s\<lparr>world := updateProgress
      (\<lambda>x. x\<lparr>progress := i + 1, currentSet := obj_get (groupsMap groups) (groupId (groups ! i))\<rparr>)
      (world s)\<rparr>"
  define s2 where "s2 = s1\<lparr>totalSkipped := totalSkipped s + length (filter (\<lambda>r. d r = SKIP) singles)\<rparr>"
  define pus where "pus = map (ssh_update_of trm ab (existingProducts s)) (filter (\<lambda>r. d r = UPDATE) singles)"
  define nps where "nps = map (ssh_new_of trm ab) (filter (\<lambda>r. d r = CREATE) singles)"
  define s3 where "s3 = ssh_update_batches e i pus 0 s2"
  define s4 where "s4 = ssh_creates e i 0 nps s3"
  define s5 where "s5 = s4\<lparr>world := log_s e 1000
      (SetsProgress (i + 1) (length groups) (totalUpdated s4) (totalCreated s4) (totalSkipped s4))
      Info (world s4)\<rparr>"
  have res: "ssh_group e pO trm groups i (Some products) s =
      (if singles = [] then s1 else if (i + 1) mod 10 = 0 then s5 else s4)"
    unfolding ssh_group_Some Let_def s5_def s4_def s3_def nps_def pus_def s2_def s1_def d_def
      singles_def ab_def ..
  have c1: "counted s1 = counted s"
    by (simp add: s1_def counted_def)
  have c2: "counted s2 = counted s + length (filter (\<lambda>r. d r = SKIP) singles)"
    by (simp add: s2_def s1_def counted_def)
  have c3: "counted s2 \<le> counted s3" "counted s3 \<le> counted s2 + length (filter (\<lambda>r. d r = UPDATE) singles)"
    using ssh_update_batches_counted[of s2 e i pus 0] by (simp_all add: s3_def pus_def)
  have c4: "counted s3 \<le> counted s4" "counted s4 \<le> counted s3 + length (filter (\<lambda>r. d r = CREATE) singles)"
    using ssh_creates_counted[of s3 e i 0 nps] by (simp_all add: s4_def nps_def)
  have c5: "counted s5 = counted s4"
    by (simp add: s5_def counted_def)
  have part: "length (filter (\<lambda>r. d r = UPDATE) singles) + length (filter (\<lambda>r. d r = CREATE) singles) +
      length (filter (\<lambda>r. d r = SKIP) singles) = length singles"
    by (rule decision_partition)
  from c1 c2 c3 c4 c5 part show ?thesis
    unfolding res singles_def[symmetric] by auto
qed

subsection \<open>The hidden counters\<close>





subsection \<open>Counters per group\<close>

text \<open>
  Claim C5, as amended. In the remote-execution backend, a group whose download
  succeeds adds to the four counters together at most the number of its rows that pass
  the sellable filter (and never lowers them); a group whose download fails adds
  exactly one to the error counter and nothing to the other three.
\<close>

theorem C5_group_counters:
  "counted s \<le> counted (ssh_group e pO trm groups i (Some products) s) \<and>
   counted (ssh_group e pO trm groups i (Some products) s)
     \<le> counted s + length (filter sellable products) \<and>
   totalErrors (ssh_group e pO trm groups i None s) = totalErrors s + 1 \<and>
   totalCreated (ssh_group e pO trm groups i None s) = totalCreated s \<and>
   totalUpdated (ssh_group e pO trm groups i None s) = totalUpdated s \<and>
   totalSkipped (ssh_group e pO trm groups i None s) = totalSkipped s"
  using ssh_group_counted[of s e pO trm groups i products]
  by (simp add: ssh_group_None)

text \<open>
  Claim C5 as stated fails for a group whose download fails: it has no rows after the
  filter, and its turn raises the counters by one.
\<close>

theorem C5_failed_fetch_counts_one:
  "products_csv (example_env\<lparr>products_csv := (\<lambda>i. None)\<rparr>) 0 = None \<and>
   counted fresh_run = 0 \<and>
   counted (ssh_group (example_env\<lparr>products_csv := (\<lambda>i. None)\<rparr>) False (Fin 4000) [group_1] 0
              (products_csv (example_env\<lparr>products_csv := (\<lambda>i. None)\<rparr>) 0) fresh_run) = 1 \<and>
   length (filter sellable
      (case products_csv (example_env\<lparr>products_csv := (\<lambda>i. None)\<rparr>) 0 of
         None \<Rightarrow> [] | Some products \<Rightarrow> products)) = 0"
  by (simp add: ssh_group_None counted_def fresh_run_def)

subsection \<open>Live totals\<close>





subsection \<open>The whole remote-execution run\<close>













subsection \<open>The stocked example, evaluated\<close>













subsection \<open>Running the batched-HTTP loop twice\<close>

declare rest_create_batches.simps [simp del]
declare rest_update_batches.simps [simp del]











subsection \<open>The remote store after a run\<close>

lemma store_after_Nil [simp]: "store_after [] d = d"
  by (simp add: store_after_def)

lemma store_after_Cons [simp]: "store_after (c # cs) d = store_after cs (apply_cmd c d)"
  by (simp add: store_after_def)









subsection \<open>What the loops send when every command succeeds\<close>




subsection \<open>A turn of the group loop settles its rows\<close>








subsection \<open>The group loop over the store of a first run\<close>







subsection \<open>The restocking example, evaluated\<close>








end
